theory Spec2Isabelle
  imports Main
begin

section \<open>The launcher framework (IPython/parallel/apps/launcher.py)\<close>

subsection \<open>Data\<close>

text \<open>
  The lifecycle attribute \<open>self.state\<close> takes the three string values
  \<open>'before'\<close>, \<open>'running'\<close>, \<open>'after'\<close>.  The launcher classes are one record
  carrying a class tag; an attribute that a class does not have, or that is not yet
  assigned (\<open>self.process = None\<close>, \<open>self.job_id\<close> before \<open>parse_job_id\<close>), is \<open>None\<close>.
  The classes \<open>LocalControllerLauncher\<close>, \<open>PBSEngineSetLauncher\<close>, ... only extend
  argument lists before they delegate to the \<open>start\<close> of their base class and are
  represented by that base class.  The launcher sets (\<open>LocalEngineSetLauncher\<close>,
  \<open>SSHEngineSetLauncher\<close>), which own one child launcher per engine, are not modelled.
\<close>

datatype lstate = Before | Running | After

datatype kind = Local | MPIExec | SSH | WinHPC | Batch

datatype error =
    ProcessStateError | LauncherError | NotImplementedError | AttributeError
  | IndexError | OSError | IOError | CalledProcessError | ValueError | TypeError
  | KeyError

datatype signal = SIGINT | SIGKILL | SigNum nat

text \<open>
  Values of \<open>start_data\<close> and \<open>stop_data\<close>: a pid, a job id,
  \<open>dict(exit_code=status, pid=pid)\<close> and \<open>dict(job_id=job_id, output=output)\<close>.
\<close>

datatype data = Pid int | JobId string | ExitData int int | JobData string string

text \<open>Actions on the operating system and the event loop, in the order they are made.\<close>

datatype effect =
    Spawned int | Signalled int signal | TreeKilled int | StdinWritten int string
  | KillScheduled | JobFileWritten | JobSubmitted | JobCancelled string

text \<open>Values of the batch-template context: \<open>n\<close> is an integer, the others are strings.\<close>

datatype cval = CInt int | CStr string

text \<open>
  The regular expressions of the launchers are sequences of one-character atoms, each
  with a quantifier: a literal, \<open>\W\<close>, \<open>\w\<close> and the class \<open>[\w\d\-\$]\<close>;
  quantifiers none, \<open>+\<close> and \<open>?\<close>.
\<close>

datatype atom = Lit char | NonWord | WordCh | ArrayCh

datatype quant = One | Plus | Opt

type_synonym regexp = "(atom \<times> quant) list"

record 'cb launcher =
  kind :: kind
  state :: lstate
  stop_callbacks :: "'cb list"
  start_data :: "data option"
  stop_data :: "data option"
  invoked :: "('cb \<times> data option) list"
  effects :: "effect list"
  process :: "int option"
  poller_running :: bool
  mpi_n :: int
  profile_dir :: string
  hostname :: string
  user :: string
  location :: string
  job_id :: "string option"
  queue :: string
  batch_template :: string
  batch_template_file :: string
  default_template :: string
  job_array_regexp :: regexp
  job_array_template :: string
  queue_regexp :: regexp
  queue_template :: string
  batch_context :: "string \<rightharpoonup> cval"
  formatter :: "string \<Rightarrow> (string \<rightharpoonup> cval) \<Rightarrow> error + string"
  batch_file_content :: "string option"

text \<open>
  \<open>invoked\<close> records the calls \<open>f(data)\<close> made to stop callbacks, oldest first, and
  \<open>effects\<close> the actions on processes, jobs and timers; both are observations of the
  run, not attributes of the Python object.  A callback is an opaque value: its body is
  not run, so a callback that calls back into its own launcher is outside this model.
  \<open>formatter\<close> is \<open>self.formatter.format\<close> (\<open>IPython.utils.text.EvalFormatter\<close>, which is
  not part of the sources at hand); \<open>batch_file_content\<close> is the content of the file
  \<open>self.batch_file\<close>, \<open>None\<close> while it has not been written.
\<close>

subsection \<open>BaseLauncher\<close>

text \<open>
  \<open>on_stop\<close>: with \<open>state == 'after'\<close> the callback is called at once with
  \<open>self.stop_data\<close>, otherwise it is appended to \<open>stop_callbacks\<close>.
\<close>

definition on_stop :: "'cb \<Rightarrow> 'cb launcher \<Rightarrow> 'cb launcher" where
  "on_stop f L =
     (if state L = After then L\<lparr>invoked := invoked L @ [(f, stop_data L)]\<rparr>
      else L\<lparr>stop_callbacks := stop_callbacks L @ [f]\<rparr>)"

definition notify_start :: "data \<Rightarrow> 'cb launcher \<Rightarrow> 'cb launcher" where
  "notify_start d L = L\<lparr>start_data := Some d, state := Running\<rparr>"

text \<open>
  The loop of \<open>notify_stop\<close>, \<open>for i in range(len(self.stop_callbacks))\<close>: each round
  pops the last element of the list and calls it.  \<open>pop()\<close> on an empty list would
  raise; the loop runs once per element, so that branch is never taken.
\<close>

fun pop_callbacks :: "nat \<Rightarrow> data \<Rightarrow> 'cb launcher \<Rightarrow> 'cb launcher" where
  "pop_callbacks 0 d L = L"
| "pop_callbacks (Suc i) d L =
     (if stop_callbacks L = [] then L
      else pop_callbacks i d
             (L\<lparr>stop_callbacks := butlast (stop_callbacks L),
                invoked := invoked L @ [(last (stop_callbacks L), Some d)]\<rparr>))"

definition notify_stop :: "data \<Rightarrow> 'cb launcher \<Rightarrow> 'cb launcher" where
  "notify_stop d L =
     pop_callbacks (length (stop_callbacks L)) d (L\<lparr>stop_data := Some d, state := After\<rparr>)"

subsection \<open>Regular expressions and job ids\<close>

text \<open>
  \<open>\w\<close> on the characters of ASCII: letters, digits and the underscore.  Templates and
  command output are taken to be ASCII text.
\<close>

definition digit_char :: "char \<Rightarrow> bool" where
  "digit_char c = (let k = (of_char c :: nat) in 48 \<le> k \<and> k \<le> 57)"

definition word_char :: "char \<Rightarrow> bool" where
  "word_char c =
     (let k = (of_char c :: nat)
      in (48 \<le> k \<and> k \<le> 57) \<or> (65 \<le> k \<and> k \<le> 90) \<or> k = 95 \<or> (97 \<le> k \<and> k \<le> 122))"

fun atom_ok :: "atom \<Rightarrow> char \<Rightarrow> bool" where
  "atom_ok (Lit a) c = (c = a)"
| "atom_ok NonWord c = (\<not> word_char c)"
| "atom_ok WordCh c = word_char c"
| "atom_ok ArrayCh c = (word_char c \<or> digit_char c \<or> c = CHR ''-'' \<or> c = CHR ''$'')"

text \<open>
  \<open>match_here p s\<close>: the pattern matches a prefix of \<open>s\<close>.  \<open>re_search p s\<close>: it
  matches somewhere in \<open>s\<close>, which is the truth value of \<open>regex.search(s)\<close>.
\<close>

fun match_here :: "regexp \<Rightarrow> string \<Rightarrow> bool" where
  "match_here [] s = True"
| "match_here ((a, One) # ps) [] = False"
| "match_here ((a, One) # ps) (c # cs) = (atom_ok a c \<and> match_here ps cs)"
| "match_here ((a, Plus) # ps) [] = False"
| "match_here ((a, Plus) # ps) (c # cs) =
     (atom_ok a c \<and> (match_here ((a, Plus) # ps) cs \<or> match_here ps cs))"
| "match_here ((a, Opt) # ps) [] = match_here ps []"
| "match_here ((a, Opt) # ps) (c # cs) =
     ((atom_ok a c \<and> match_here ps cs) \<or> match_here ps (c # cs))"

fun re_search :: "regexp \<Rightarrow> string \<Rightarrow> bool" where
  "re_search p [] = match_here p []"
| "re_search p (c # cs) = (match_here p (c # cs) \<or> re_search p cs)"

text \<open>
  \<open>parse_job_id\<close> with \<open>job_id_regexp\<close> at its value \<open>r'\d+'\<close> in \<open>PBSLauncher\<close> and
  \<open>WindowsHPCLauncher\<close>: \<open>m.group()\<close> is the first maximal run of digits of the output,
  and there is no match when the output has no digit.  The output of \<open>check_output\<close> is
  taken as text.
\<close>

definition search_digits :: "string \<Rightarrow> string option" where
  "search_digits s =
     (let r = dropWhile (\<lambda>c. \<not> digit_char c) s
      in if r = [] then None else Some (takeWhile digit_char r))"

definition parse_job_id :: "string \<Rightarrow> 'cb launcher \<Rightarrow> error + (string \<times> 'cb launcher)" where
  "parse_job_id output L =
     (case search_digits output of
        None \<Rightarrow> Inl LauncherError
      | Some j \<Rightarrow> Inr (j, L\<lparr>job_id := Some j\<rparr>))"

subsection \<open>The environment of a call\<close>

text \<open>
  What the operating system answers during one call: the platform flag \<open>WINDOWS\<close>, the
  pid of the process \<open>Popen\<close> creates (\<open>None\<close>: it raises), whether sending a signal,
  running \<open>taskkill\<close> or writing to the child's stdin succeeds, what
  \<open>self.process.poll()\<close> returns, the output of \<open>check_output\<close> (\<open>None\<close>: it raises),
  whether the job or batch file can be written, and what reading
  \<open>batch_template_file\<close> returns (\<open>None\<close>: it raises).
\<close>

record env =
  windows :: bool
  popen :: "int option"
  send_ok :: bool
  exit_status :: "int option"
  cmd_output :: "string option"
  file_ok :: bool
  template_file :: "string option"

text \<open>
  A call returns the exception it raised, if any, together with the launcher as the
  call left it: assignments made before a \<open>raise\<close> persist.
\<close>

type_synonym 'cb outcome = "error option \<times> 'cb launcher"

definition andthen :: "'cb outcome \<Rightarrow> ('cb launcher \<Rightarrow> 'cb outcome) \<Rightarrow> 'cb outcome" where
  "andthen r f = (case r of (Some e, L) \<Rightarrow> (Some e, L) | (None, L) \<Rightarrow> f L)"

subsection \<open>BatchSystemLauncher.write_batch_script\<close>

definition newline :: char where
  "newline = CHR 0x0A"

text \<open>
  \<open>firstline, rest = t.split('\n', 1)\<close> raises \<open>ValueError\<close> when \<open>t\<close> has no newline;
  \<open>'\n'.join([firstline, line, rest])\<close> puts \<open>line\<close> after the first line.
\<close>

definition split_nl :: "string \<Rightarrow> (string \<times> string) option" where
  "split_nl t =
     (if newline \<in> set t
      then Some (takeWhile (\<lambda>c. c \<noteq> newline) t, tl (dropWhile (\<lambda>c. c \<noteq> newline) t))
      else None)"

definition insert_after_first_line :: "string \<Rightarrow> string \<Rightarrow> error + string" where
  "insert_after_first_line line t =
     (case split_nl t of
        None \<Rightarrow> Inl ValueError
      | Some (firstline, rest) \<Rightarrow> Inr (firstline @ [newline] @ line @ [newline] @ rest))"

definition resolve_template :: "env \<Rightarrow> 'cb launcher \<Rightarrow> 'cb outcome" where
  "resolve_template e L =
     andthen
       (if batch_template_file L \<noteq> [] \<and> batch_template L = [] then
          (case template_file e of
             None \<Rightarrow> (Some IOError, L)
           | Some txt \<Rightarrow> (None, L\<lparr>batch_template := txt\<rparr>))
        else (None, L))
       (\<lambda>L1. if batch_template L1 = [] then (None, L1\<lparr>batch_template := default_template L1\<rparr>)
             else (None, L1))"

definition inject_job_array :: "'cb launcher \<Rightarrow> 'cb outcome" where
  "inject_job_array L =
     (if \<not> re_search (job_array_regexp L) (batch_template L) then
        (case insert_after_first_line (job_array_template L) (batch_template L) of
           Inl err \<Rightarrow> (Some err, L)
         | Inr t \<Rightarrow> (None, L\<lparr>batch_template := t\<rparr>))
      else (None, L))"

definition inject_queue :: "'cb launcher \<Rightarrow> 'cb outcome" where
  "inject_queue L =
     (if queue L \<noteq> [] \<and> \<not> re_search (queue_regexp L) (batch_template L) then
        (case insert_after_first_line (queue_template L) (batch_template L) of
           Inl err \<Rightarrow> (Some err, L)
         | Inr t \<Rightarrow> (None, L\<lparr>batch_template := t\<rparr>))
      else (None, L))"

definition write_script :: "env \<Rightarrow> 'cb launcher \<Rightarrow> 'cb outcome" where
  "write_script e L =
     (case formatter L (batch_template L) (batch_context L) of
        Inl err \<Rightarrow> (Some err, L)
      | Inr script_as_string \<Rightarrow>
          if file_ok e then (None, L\<lparr>batch_file_content := Some script_as_string\<rparr>)
          else (Some IOError, L))"

definition write_batch_script :: "env \<Rightarrow> int \<Rightarrow> 'cb launcher \<Rightarrow> 'cb outcome" where
  "write_batch_script e n L =
     andthen
       (resolve_template e
          (L\<lparr>batch_context := (batch_context L)(''n'' \<mapsto> CInt n, ''queue'' \<mapsto> CStr (queue L))\<rparr>))
       (\<lambda>L1. andthen (inject_job_array L1)
          (\<lambda>L2. andthen (inject_queue L2) (write_script e)))"

subsection \<open>LocalProcessLauncher, MPIExecLauncher, SSHLauncher\<close>

definition local_start :: "env \<Rightarrow> 'cb launcher \<Rightarrow> 'cb outcome" where
  "local_start e L =
     (if state L = Before then
        (case popen e of
           None \<Rightarrow> (Some OSError, L)
         | Some pid \<Rightarrow>
             (None, notify_start (Pid pid)
                (L\<lparr>process := Some pid, poller_running := True,
                   effects := effects L @ [Spawned pid]\<rparr>)))
      else (Some ProcessStateError, L))"

definition local_signal :: "signal \<Rightarrow> env \<Rightarrow> 'cb launcher \<Rightarrow> 'cb outcome" where
  "local_signal sig e L =
     (if state L = Running then
        (case process L of
           None \<Rightarrow> (Some AttributeError, L)
         | Some pid \<Rightarrow>
             if windows e \<and> sig \<noteq> SIGINT then
               (if send_ok e then None else Some CalledProcessError,
                L\<lparr>effects := effects L @ [TreeKilled pid]\<rparr>)
             else
               (if send_ok e then None else Some OSError,
                L\<lparr>effects := effects L @ [Signalled pid sig]\<rparr>))
      else (None, L))"

text \<open>
  \<open>SSHLauncher._hostname_changed(name, old, new)\<close> and \<open>_user_changed(name, old, new)\<close>:
  they run after the attribute has its new value.
\<close>

definition hostname_changed :: "string \<Rightarrow> 'cb launcher \<Rightarrow> 'cb launcher" where
  "hostname_changed new L =
     (if user L \<noteq> [] then L\<lparr>location := user L @ ''@'' @ new\<rparr>
      else L\<lparr>location := new\<rparr>)"

definition user_changed :: "string \<Rightarrow> 'cb launcher \<Rightarrow> 'cb launcher" where
  "user_changed new L = L\<lparr>location := new @ ''@'' @ hostname L\<rparr>"

text \<open>
  Modelled from the spec: the attribute machinery (\<open>IPython.utils.traitlets\<close>) that calls
  \<open>_hostname_changed\<close> and \<open>_user_changed\<close> is not part of the sources at hand.  The
  spec says that \<open>location\<close> is recomputed whenever \<open>user\<close> or \<open>hostname\<close> changes: an
  assignment stores the value and, when it differs from the old one, calls the handler.
\<close>

definition set_hostname :: "string \<Rightarrow> 'cb launcher \<Rightarrow> 'cb launcher" where
  "set_hostname v L = (if v = hostname L then L else hostname_changed v (L\<lparr>hostname := v\<rparr>))"

definition set_user :: "string \<Rightarrow> 'cb launcher \<Rightarrow> 'cb launcher" where
  "set_user v L = (if v = user L then L else user_changed v (L\<lparr>user := v\<rparr>))"

definition ssh_start ::
  "string \<Rightarrow> string option \<Rightarrow> string option \<Rightarrow> env \<Rightarrow> 'cb launcher \<Rightarrow> 'cb outcome" where
  "ssh_start pd h u e L =
     (let L1 = L\<lparr>profile_dir := pd\<rparr>;
          L2 = (case h of None \<Rightarrow> L1 | Some hn \<Rightarrow> set_hostname hn L1);
          L3 = (case u of None \<Rightarrow> L2 | Some un \<Rightarrow> set_user un L2)
      in local_start e L3)"

text \<open>\<open>SSHLauncher.signal\<close> writes the escaped connection closer to the child's stdin.\<close>

definition ssh_signal :: "signal \<Rightarrow> env \<Rightarrow> 'cb launcher \<Rightarrow> 'cb outcome" where
  "ssh_signal sig e L =
     (if state L = Running then
        (case process L of
           None \<Rightarrow> (Some AttributeError, L)
         | Some pid \<Rightarrow>
             (if send_ok e then None else Some IOError,
              L\<lparr>effects := effects L @ [StdinWritten pid ''~.'']\<rparr>))
      else (None, L))"

text \<open>
  \<open>poll\<close> is called by the periodic callback and by the output handlers.  When the
  exit status is known it stops the poller and calls \<open>notify_stop\<close>.
\<close>

definition poll :: "env \<Rightarrow> 'cb launcher \<Rightarrow> 'cb outcome" where
  "poll e L =
     (case process L of
        None \<Rightarrow> (Some AttributeError, L)
      | Some pid \<Rightarrow>
          (case exit_status e of
             None \<Rightarrow> (None, L)
           | Some status \<Rightarrow>
               (None, notify_stop (ExitData status pid) (L\<lparr>poller_running := False\<rparr>))))"

subsection \<open>WindowsHPCLauncher and BatchSystemLauncher\<close>

text \<open>\<open>'%r' % job_id\<close> for a job id of digits.\<close>

definition py_repr :: "string \<Rightarrow> string" where
  "py_repr s = [CHR 0x27] @ s @ [CHR 0x27]"

definition winhpc_start :: "env \<Rightarrow> 'cb launcher \<Rightarrow> 'cb outcome" where
  "winhpc_start e L =
     (if \<not> file_ok e then (Some IOError, L)
      else
        (let L1 = L\<lparr>effects := effects L @ [JobFileWritten, JobSubmitted]\<rparr>
         in case cmd_output e of
              None \<Rightarrow> (Some CalledProcessError, L1)
            | Some output \<Rightarrow>
                (case parse_job_id output L1 of
                   Inl err \<Rightarrow> (Some err, L1)
                 | Inr (j, L2) \<Rightarrow> (None, notify_start (JobId j) L2))))"

definition winhpc_stop :: "env \<Rightarrow> 'cb launcher \<Rightarrow> 'cb outcome" where
  "winhpc_stop e L =
     (case job_id L of
        None \<Rightarrow> (Some AttributeError, L)
      | Some j \<Rightarrow>
          (let output = (case cmd_output e of
                           Some out \<Rightarrow> out
                         | None \<Rightarrow> ''The job already appears to be stoppped: '' @ py_repr j)
           in (None, notify_stop (JobData j output)
                       (L\<lparr>effects := effects L @ [JobCancelled j]\<rparr>))))"

definition batch_start :: "int \<Rightarrow> string \<Rightarrow> env \<Rightarrow> 'cb launcher \<Rightarrow> 'cb outcome" where
  "batch_start n pd e L =
     andthen
       (write_batch_script e n
          (L\<lparr>batch_context := (batch_context L)(''profile_dir'' \<mapsto> CStr pd),
             profile_dir := pd\<rparr>))
       (\<lambda>L1. let L2 = L1\<lparr>effects := effects L1 @ [JobSubmitted]\<rparr>
             in case cmd_output e of
                  None \<Rightarrow> (Some CalledProcessError, L2)
                | Some output \<Rightarrow>
                    (case parse_job_id output L2 of
                       Inl err \<Rightarrow> (Some err, L2)
                     | Inr (j, L3) \<Rightarrow> (None, notify_start (JobId j) L3)))"

definition batch_stop :: "env \<Rightarrow> 'cb launcher \<Rightarrow> 'cb outcome" where
  "batch_stop e L =
     (case job_id L of
        None \<Rightarrow> (Some AttributeError, L)
      | Some j \<Rightarrow>
          (let L1 = L\<lparr>effects := effects L @ [JobCancelled j]\<rparr>
           in case cmd_output e of
                None \<Rightarrow> (Some CalledProcessError, L1)
              | Some output \<Rightarrow> (None, notify_stop (JobData j output) L1)))"

subsection \<open>The public operations, by class\<close>

text \<open>
  \<open>start\<close> takes the arguments of all variants: \<open>n\<close>, \<open>profile_dir\<close>, and the optional
  \<open>hostname\<close> and \<open>user\<close> of \<open>SSHLauncher.start\<close>; each class uses its own.
\<close>

definition start ::
  "int \<Rightarrow> string \<Rightarrow> string option \<Rightarrow> string option \<Rightarrow> env \<Rightarrow> 'cb launcher \<Rightarrow> 'cb outcome" where
  "start n pd h u e L =
     (case kind L of
        Local \<Rightarrow> local_start e L
      | MPIExec \<Rightarrow> local_start e (L\<lparr>mpi_n := n\<rparr>)
      | SSH \<Rightarrow> ssh_start pd h u e L
      | WinHPC \<Rightarrow> winhpc_start e L
      | Batch \<Rightarrow> batch_start n pd e L)"

text \<open>
  \<open>WindowsHPCLauncher\<close> and \<open>BatchSystemLauncher\<close> do not define \<open>signal\<close>: the call
  reaches \<open>BaseLauncher.signal\<close>, which raises \<open>NotImplementedError\<close>.
\<close>

definition signal :: "signal \<Rightarrow> env \<Rightarrow> 'cb launcher \<Rightarrow> 'cb outcome" where
  "signal sig e L =
     (case kind L of
        Local \<Rightarrow> local_signal sig e L
      | MPIExec \<Rightarrow> local_signal sig e L
      | SSH \<Rightarrow> ssh_signal sig e L
      | WinHPC \<Rightarrow> (Some NotImplementedError, L)
      | Batch \<Rightarrow> (Some NotImplementedError, L))"

text \<open>
  \<open>interrupt_then_kill\<close> of \<open>LocalProcessLauncher\<close>: an exception of \<open>self.signal(SIGINT)\<close>
  is swallowed, then the delayed callback that calls \<open>self.signal(SIGKILL)\<close> is created,
  stored in \<open>self.killer\<close> and started (the effect \<open>KillScheduled\<close>).  The other two
  classes have no such method.
\<close>

definition interrupt_then_kill :: "env \<Rightarrow> 'cb launcher \<Rightarrow> 'cb outcome" where
  "interrupt_then_kill e L =
     (case kind L of
        WinHPC \<Rightarrow> (Some AttributeError, L)
      | Batch \<Rightarrow> (Some AttributeError, L)
      | _ \<Rightarrow> (let L1 = snd (signal SIGINT e L)
             in (None, L1\<lparr>effects := effects L1 @ [KillScheduled]\<rparr>)))"

definition stop :: "env \<Rightarrow> 'cb launcher \<Rightarrow> 'cb outcome" where
  "stop e L =
     (case kind L of
        WinHPC \<Rightarrow> winhpc_stop e L
      | Batch \<Rightarrow> batch_stop e L
      | _ \<Rightarrow> interrupt_then_kill e L)"

datatype 'cb op =
    Start int string "string option" "string option"
  | Stop
  | Signal signal
  | InterruptThenKill
  | OnStop 'cb
  | Poll

fun step :: "env \<times> 'cb op \<Rightarrow> 'cb launcher \<Rightarrow> 'cb outcome" where
  "step (e, Start n pd h u) L = start n pd h u e L"
| "step (e, Stop) L = stop e L"
| "step (e, Signal sig) L = signal sig e L"
| "step (e, InterruptThenKill) L = interrupt_then_kill e L"
| "step (e, OnStop f) L = (None, on_stop f L)"
| "step (e, Poll) L =
     (case kind L of
        WinHPC \<Rightarrow> (Some AttributeError, L)
      | Batch \<Rightarrow> (Some AttributeError, L)
      | _ \<Rightarrow> poll e L)"

text \<open>
  A sequence of calls on one launcher object.  A call that raises hands the exception
  to its caller; the object stays as the call left it and takes the next call.
\<close>

definition run :: "(env \<times> 'cb op) list \<Rightarrow> 'cb launcher \<Rightarrow> 'cb launcher" where
  "run ops L = foldl (\<lambda>L' eo. snd (step eo L')) L ops"



subsection \<open>Rendering and the launcher classes' attribute values\<close>

text \<open>
  Modelled from the spec: \<open>EvalFormatter.format(template, **context)\<close> is not part of the
  sources at hand.  The spec says that templates are plain text with \<open>{name}\<close>
  placeholders and that the script is rendered by substituting \<open>{n}\<close>, \<open>{queue}\<close>,
  \<open>{profile_dir}\<close> and any additional context key: each placeholder is replaced by
  \<open>str\<close> of the value the context has for its name, a name the context does not
  have is an error, and so is an opening brace that is never closed.
\<close>

function str_nat :: "nat \<Rightarrow> string" where
  "str_nat n =
     (if n < 10 then [''0123456789'' ! n]
      else str_nat (n div 10) @ [''0123456789'' ! (n mod 10)])"
  by pat_completeness auto
termination
  by (relation "measure (\<lambda>n. n)") auto

definition str_int :: "int \<Rightarrow> string" where
  "str_int i = (if i < 0 then CHR ''-'' # str_nat (nat (- i)) else str_nat (nat i))"

fun str_cval :: "cval \<Rightarrow> string" where
  "str_cval (CInt i) = str_int i"
| "str_cval (CStr s) = s"

function eval_format :: "string \<Rightarrow> (string \<rightharpoonup> cval) \<Rightarrow> error + string" where
  "eval_format [] ctx = Inr []"
| "eval_format (c # cs) ctx =
     (if c = CHR ''{'' then
        (if CHR ''}'' \<in> set cs then
           (case ctx (takeWhile (\<lambda>x. x \<noteq> CHR ''}'') cs) of
              None \<Rightarrow> Inl KeyError
            | Some v \<Rightarrow>
                (case eval_format (tl (dropWhile (\<lambda>x. x \<noteq> CHR ''}'') cs)) ctx of
                   Inl err \<Rightarrow> Inl err
                 | Inr r \<Rightarrow> Inr (str_cval v @ r)))
         else Inl ValueError)
      else (case eval_format cs ctx of Inl err \<Rightarrow> Inl err | Inr r \<Rightarrow> Inr (c # r)))"
  by pat_completeness auto
termination
proof (relation "measure (\<lambda>(s, ctx). length s)")
  show "wf (measure (\<lambda>(s, ctx). length s))" by simp
next
  fix c :: char and cs :: string and ctx :: "string \<rightharpoonup> cval" and x2 :: cval
  have "length (dropWhile (\<lambda>x. x \<noteq> CHR ''}'') cs) \<le> length cs"
    by (rule length_dropWhile_le)
  then show "((tl (dropWhile (\<lambda>x. x \<noteq> CHR ''}'') cs), ctx), c # cs, ctx)
      \<in> measure (\<lambda>(s, ctx). length s)"
    by simp
next
  fix c :: char and cs :: string and ctx :: "string \<rightharpoonup> cval"
  show "((cs, ctx), c # cs, ctx) \<in> measure (\<lambda>(s, ctx). length s)" by simp
qed

text \<open>
  \<open>BaseLauncher.__init__\<close> and the attribute defaults of the class bodies.  The regular
  expressions and templates of \<open>BatchSystemLauncher\<close> are empty strings; \<open>PBSLauncher\<close>
  and \<open>SGELauncher\<close> override them.
\<close>

definition new_launcher :: "kind \<Rightarrow> 'cb launcher" where
  "new_launcher k =
     \<lparr>kind = k, state = Before, stop_callbacks = [], start_data = None, stop_data = None,
      invoked = [], effects = [], process = None, poller_running = False, mpi_n = 1,
      profile_dir = [], hostname = [], user = [], location = [], job_id = None,
      queue = [], batch_template = [], batch_template_file = [], default_template = [],
      job_array_regexp = [], job_array_template = [], queue_regexp = [],
      queue_template = [], batch_context = Map.empty, formatter = eval_format,
      batch_file_content = None\<rparr>"

definition lits :: "string \<Rightarrow> regexp" where
  "lits s = map (\<lambda>c. (Lit c, One)) s"



text \<open>\<open>'#\$\W+\-t'\<close> and \<open>'#\$\W+-q\W+\$?\w+'\<close>.\<close>

definition sge_job_array_regexp :: regexp where
  "sge_job_array_regexp = lits ''#$'' @ [(NonWord, Plus)] @ lits ''-t''"

definition sge_queue_regexp :: regexp where
  "sge_queue_regexp =
     lits ''#$'' @ [(NonWord, Plus)] @ lits ''-q''
       @ [(NonWord, Plus), (Lit (CHR ''$''), Opt), (WordCh, Plus)]"




definition SGELauncher :: "'cb launcher" where
  "SGELauncher =
     (new_launcher Batch)
       \<lparr>job_array_regexp := sge_job_array_regexp, job_array_template := ''#$ -t 1-{n}'',
        queue_regexp := sge_queue_regexp, queue_template := ''#$ -q {queue}''\<rparr>"

text \<open>An environment in which every request to the operating system succeeds.\<close>

definition env_ok :: env where
  "env_ok =
     \<lparr>windows = False, popen = Some 4242, send_ok = True, exit_status = None,
      cmd_output = Some ''Job 17 submitted'', file_ok = True, template_file = None\<rparr>"

subsection \<open>Notions used in the statements about launchers\<close>

text \<open>The classes derived from \<open>LocalProcessLauncher\<close>.\<close>

definition local_kind :: "kind \<Rightarrow> bool" where
  "local_kind k \<longleftrightarrow> k = Local \<or> k = MPIExec \<or> k = SSH"







section \<open>The engine kernel (IPython/parallel/engine/streamkernel.py)\<close>

subsection \<open>Messages, streams and the kernel's state\<close>

text \<open>
  Values in the content of a message and in a subheader: a string, a list of strings
  (\<open>msg_ids\<close>), a truth value.  A key that is absent is \<open>None\<close> of the map.  A message
  as \<open>unpack_message\<close> delivers it has a header with a \<open>msg_id\<close>, a \<open>msg_type\<close>, a
  content and buffers.
\<close>

datatype jval = JStr string | JList "string list" | JBool bool

text \<open>An exception that was raised: its class name and its value.\<close>

datatype exc = Exc string string

record message =
  msg_id :: string
  msg_type :: string
  content :: "string \<rightharpoonup> jval"
  buffers :: "string list"

text \<open>
  The streams of a kernel: the shell streams by their position in \<open>shell_streams\<close>, the
  control stream, the iopub stream, and the \<open>_Passer\<close> whose \<open>send\<close> does nothing.
\<close>

datatype stream = Shell nat | Control | Iopub | Passer

text \<open>One call of \<open>self.session.send\<close>: what was sent and on which stream.\<close>

record sent =
  via :: stream
  sent_type :: string
  sent_content :: "string \<rightharpoonup> jval"
  sent_parent :: message
  sent_ident :: "string list"
  sent_buffers :: "string list"
  subheader :: "string \<rightharpoonup> jval"

text \<open>
  What \<open>self.session.recv(stream, zmq.NOBLOCK)\<close> returns for the frames waiting on a
  shell stream: a message with its identities, \<open>None\<close>, or a \<open>ZMQError\<close> other than
  \<open>EAGAIN\<close>.  When nothing waits it raises \<open>EAGAIN\<close>.
\<close>

datatype recv = Got "string list" message | RecvNone | RecvError

text \<open>
  \<open>outbox\<close> is the sequence of messages sent so far and \<open>logged\<close> the calls of
  \<open>self.log.error\<close>; an element of \<open>shell_streams\<close> is the queue of frames waiting on
  that stream, or \<open>None\<close> for an entry that is not a stream.
\<close>

record 'v kernel =
  ident :: string
  prefix :: string
  user_ns :: "string \<rightharpoonup> 'v"
  exec_lines :: "string list"
  aborted :: "string set"
  shell_streams :: "recv list option list"
  outbox :: "sent list"
  logged :: "string list"
  exit_scheduled :: bool

text \<open>
  What the kernel takes from outside this file: the clock, Python's \<open>None\<close>, compiling
  and executing code in a namespace (the exception raised, if any, and the namespace
  afterwards), \<open>unpack_apply_message\<close>, the call \<open>f(*args, **kwargs)\<close> made with the
  namespace as globals (its result or exception, and the namespace afterwards),
  \<open>serialize_object\<close>, the completer, and \<open>self.control_stream.flush()\<close>, which hands
  the control frames that wait to \<open>dispatch_control\<close>.
\<close>

record 'v interp =
  now :: string
  py_None :: 'v
  exec_code :: "jval \<Rightarrow> (string \<rightharpoonup> 'v) \<Rightarrow> exc option \<times> (string \<rightharpoonup> 'v)"
  unpack_apply_message :: "string list \<Rightarrow> (string \<rightharpoonup> 'v) \<Rightarrow> exc + 'v \<times> 'v \<times> 'v"
  call :: "'v \<Rightarrow> 'v \<Rightarrow> 'v \<Rightarrow> (string \<rightharpoonup> 'v) \<Rightarrow> (exc + 'v) \<times> (string \<rightharpoonup> 'v)"
  serialize_object :: "'v \<Rightarrow> exc + string \<times> string list"
  complete :: "message \<Rightarrow> (string \<rightharpoonup> 'v) \<Rightarrow> string list"
  flush_control :: "'v kernel \<Rightarrow> exc option \<times> 'v kernel"

type_synonym 'v handled = "exc option \<times> 'v kernel"

subsection \<open>Sending\<close>

text \<open>
  Modelled from the spec: \<open>StreamSession.send\<close> is not part of the sources at hand.
  The spec says that the session frames a message with its identities and links it to
  its parent, that a reply carries the identities of the request and that its parent
  header is the header of the request.  A send appends the message to what the kernel
  has sent; on the \<open>_Passer\<close> nothing is sent.
\<close>

definition send ::
  "stream \<Rightarrow> string \<Rightarrow> (string \<rightharpoonup> jval) \<Rightarrow> message \<Rightarrow> string list \<Rightarrow> string list \<Rightarrow>
   (string \<rightharpoonup> jval) \<Rightarrow> 'v kernel \<Rightarrow> 'v kernel" where
  "send s t c p i b sub K =
     (if s = Passer then K
      else K\<lparr>outbox := outbox K @
             [\<lparr>via = s, sent_type = t, sent_content = c, sent_parent = p, sent_ident = i,
               sent_buffers = b, subheader = sub\<rparr>]\<rparr>)"

text \<open>
  Modelled from the spec: \<open>wrap_exception\<close> is not part of the sources at hand.  The
  spec says that an exception is wrapped into a content with \<open>ename\<close>, \<open>evalue\<close>,
  \<open>traceback\<close>, \<open>engine_uuid\<close>, \<open>engine_id\<close> and \<open>method\<close>, and that the reply to a
  failed request has status \<open>error\<close>.  The keys with string values are kept.
\<close>

definition wrap_exception :: "'v kernel \<Rightarrow> string \<Rightarrow> exc \<Rightarrow> (string \<rightharpoonup> jval)" where
  "wrap_exception K method ex =
     (case ex of Exc en ev \<Rightarrow>
        [''status'' \<mapsto> JStr ''error'', ''ename'' \<mapsto> JStr en, ''evalue'' \<mapsto> JStr ev,
         ''engine_uuid'' \<mapsto> JStr (ident K), ''method'' \<mapsto> JStr method])"

text \<open>\<open>msg_type.split('_')[0] + '_reply'\<close>.\<close>

definition reply_type :: "string \<Rightarrow> string" where
  "reply_type t = takeWhile (\<lambda>c. c \<noteq> CHR ''_'') t @ ''_reply''"

definition aborted_reply :: "stream \<Rightarrow> string list \<Rightarrow> message \<Rightarrow> sent" where
  "aborted_reply s idents msg =
     \<lparr>via = s, sent_type = reply_type (msg_type msg),
      sent_content = [''status'' \<mapsto> JStr ''aborted''], sent_parent = msg,
      sent_ident = idents, sent_buffers = [], subheader = Map.empty\<rparr>"

subsection \<open>Control handlers\<close>

text \<open>
  \<open>abort_queue(stream)\<close>: the messages replied to, and the frames left waiting.  The
  loop ends when nothing waits; it returns on \<open>None\<close> and on another \<open>ZMQError\<close>.
\<close>

fun abort_queue :: "stream \<Rightarrow> recv list \<Rightarrow> sent list \<times> recv list" where
  "abort_queue s [] = ([], [])"
| "abort_queue s (RecvError # rest) = ([], rest)"
| "abort_queue s (RecvNone # rest) = ([], rest)"
| "abort_queue s (Got idents msg # rest) =
     (case abort_queue s rest of (out, left) \<Rightarrow> (aborted_reply s idents msg # out, left))"

fun abort_streams :: "nat \<Rightarrow> recv list option list \<Rightarrow> sent list \<times> recv list option list" where
  "abort_streams i [] = ([], [])"
| "abort_streams i (None # ss) =
     (case abort_streams (Suc i) ss of (out, ss') \<Rightarrow> (out, None # ss'))"
| "abort_streams i (Some q # ss) =
     (case abort_queue (Shell i) q of (out1, q') \<Rightarrow>
        (case abort_streams (Suc i) ss of (out2, ss') \<Rightarrow> (out1 @ out2, Some q' # ss')))"

definition abort_queues :: "'v kernel \<Rightarrow> 'v kernel" where
  "abort_queues K =
     (case abort_streams 0 (shell_streams K) of
        (out, ss) \<Rightarrow> K\<lparr>shell_streams := ss, outbox := outbox K @ out\<rparr>)"

text \<open>
  \<open>abort_request\<close>.  \<open>msg_ids\<close> is \<open>content.get('msg_ids', None)\<close>; a string becomes the
  list of that string.  \<open>not msg_ids\<close> holds for \<open>None\<close>, the empty list and \<open>False\<close>.
  The loop \<open>for mid in msg_ids\<close> raises \<open>TypeError\<close> when \<open>msg_ids\<close> is \<open>None\<close> or a
  truth value; it adds \<open>str(mid)\<close> for every element of a list.  (The branch for a
  string is never taken: a string has become a list.)
\<close>

definition falsy :: "jval option \<Rightarrow> bool" where
  "falsy v =
     (case v of
        None \<Rightarrow> True
      | Some (JStr s) \<Rightarrow> s = []
      | Some (JList l) \<Rightarrow> l = []
      | Some (JBool b) \<Rightarrow> \<not> b)"

definition abort_request :: "stream \<Rightarrow> string list \<Rightarrow> message \<Rightarrow> 'v kernel \<Rightarrow> 'v handled" where
  "abort_request s idt parent K =
     (let msg_ids = (case content parent ''msg_ids'' of
                       Some (JStr mid) \<Rightarrow> Some (JList [mid])
                     | v \<Rightarrow> v);
          K1 = (if falsy msg_ids then abort_queues K else K)
      in case msg_ids of
           Some (JList mids) \<Rightarrow>
             (None, send s ''abort_reply'' [''status'' \<mapsto> JStr ''ok''] parent idt [] Map.empty
                      (K1\<lparr>aborted := aborted K1 \<union> set mids\<rparr>))
         | Some (JStr mid) \<Rightarrow>
             (None, send s ''abort_reply'' [''status'' \<mapsto> JStr ''ok''] parent idt [] Map.empty
                      (K1\<lparr>aborted := insert mid (aborted K1)\<rparr>))
         | Some (JBool b) \<Rightarrow> (Some (Exc ''TypeError'' ''object is not iterable''), K1)
         | None \<Rightarrow> (Some (Exc ''TypeError'' ''object is not iterable''), K1))"

text \<open>
  \<open>shutdown_request\<close>: \<open>abort_queues\<close> raises nothing here, so the reply echoes the
  content of the request with status \<open>ok\<close>; the exit is scheduled on the loop.
\<close>

definition shutdown_request :: "stream \<Rightarrow> string list \<Rightarrow> message \<Rightarrow> 'v kernel \<Rightarrow> 'v handled" where
  "shutdown_request s idt parent K =
     (None, (send s ''shutdown_reply'' ((content parent)(''status'' \<mapsto> JStr ''ok'')) parent idt []
               Map.empty (abort_queues K))\<lparr>exit_scheduled := True\<rparr>)"

subsection \<open>Queue handlers\<close>

text \<open>
  \<open>execute_request\<close>.  Without a \<open>code\<close> key the lookup raises, the error is logged and
  the handler returns.  Otherwise \<open>pyin\<close> is broadcast, the code is compiled and
  executed in \<open>user_ns\<close>; on an exception \<open>pyerr\<close> is broadcast and the reply carries
  the wrapped exception, and when the status of the reply is \<open>error\<close> the queues are
  aborted.
\<close>

definition execute_request ::
  "'v interp \<Rightarrow> stream \<Rightarrow> string list \<Rightarrow> message \<Rightarrow> 'v kernel \<Rightarrow> 'v handled" where
  "execute_request I s idt parent K =
     (case content parent ''code'' of
        None \<Rightarrow> (None, K\<lparr>logged := logged K @ [''Got bad msg'']\<rparr>)
      | Some code \<Rightarrow>
          (let K1 = send Iopub ''pyin'' [''code'' \<mapsto> code] parent [prefix K @ ''.pyin''] []
                      Map.empty K;
               started = [''started'' \<mapsto> JStr (now I)];
               r = exec_code I code (user_ns K1);
               K2 = K1\<lparr>user_ns := snd r\<rparr>;
               reply_content = (case fst r of
                                  Some ex \<Rightarrow> wrap_exception K2 ''execute'' ex
                                | None \<Rightarrow> [''status'' \<mapsto> JStr ''ok'']);
               K3 = (case fst r of
                       Some ex \<Rightarrow> send Iopub ''pyerr'' reply_content parent
                                   [prefix K @ ''.pyerr''] [] Map.empty K2
                     | None \<Rightarrow> K2);
               K4 = send s ''execute_reply'' reply_content parent idt [] started K3
           in (None, if reply_content ''status'' = Some (JStr ''error'') then abort_queues K4
                     else K4)))"

definition complete_request ::
  "'v interp \<Rightarrow> stream \<Rightarrow> string list \<Rightarrow> message \<Rightarrow> 'v kernel \<Rightarrow> 'v handled" where
  "complete_request I s idt parent K =
     (None, send s ''complete_reply''
              [''matches'' \<mapsto> JList (complete I parent (user_ns K)), ''status'' \<mapsto> JStr ''ok'']
              parent idt [] Map.empty K)"

text \<open>
  \<open>apply_request\<close>.  The four names \<open>prefix + "f"\<close>, \<open>"args"\<close>, \<open>"kwargs"\<close>, \<open>"result"\<close>
  with \<open>prefix = "_" + str(msg_id).replace("-", "") + "_"\<close>, in the order of the dict
  \<open>ns\<close>, and \<open>working.update(ns)\<close>, which binds them to the function, its arguments and
  \<open>None\<close>.
\<close>

definition name_prefix :: "string \<Rightarrow> string" where
  "name_prefix mid = ''_'' @ filter (\<lambda>c. c \<noteq> CHR ''-'') mid @ ''_''"

definition apply_names :: "string \<Rightarrow> string list" where
  "apply_names mid =
     [name_prefix mid @ ''f'', name_prefix mid @ ''args'', name_prefix mid @ ''kwargs'',
      name_prefix mid @ ''result'']"

definition bind_names ::
  "'v interp \<Rightarrow> string \<Rightarrow> 'v \<Rightarrow> 'v \<Rightarrow> 'v \<Rightarrow> (string \<rightharpoonup> 'v) \<Rightarrow> (string \<rightharpoonup> 'v)" where
  "bind_names I mid f args kwargs w =
     w(name_prefix mid @ ''f'' \<mapsto> f, name_prefix mid @ ''args'' \<mapsto> args,
       name_prefix mid @ ''kwargs'' \<mapsto> kwargs, name_prefix mid @ ''result'' \<mapsto> py_None I)"

text \<open>
  The \<open>finally\<close> block, \<open>for key in ns.keys(): working.pop(key)\<close>: \<open>pop\<close> of a key that
  is not bound raises \<open>KeyError\<close> and ends the loop.
\<close>

fun pop_keys :: "string list \<Rightarrow> (string \<rightharpoonup> 'v) \<Rightarrow> exc option \<times> (string \<rightharpoonup> 'v)" where
  "pop_keys [] w = (None, w)"
| "pop_keys (k # ks) w =
     (case w k of
        None \<Rightarrow> (Some (Exc ''KeyError'' k), w)
      | Some v \<Rightarrow> pop_keys ks (w(k := None)))"

text \<open>
  The \<open>except\<close> branch of \<open>apply_request\<close>: \<open>pyerr\<close> is broadcast, the reply carries the
  wrapped exception and no buffers, and \<open>dependencies_met\<close> is false for
  \<open>UnmetDependency\<close>.
\<close>

definition apply_failed ::
  "'v interp \<Rightarrow> stream \<Rightarrow> string list \<Rightarrow> message \<Rightarrow> exc \<Rightarrow> 'v kernel \<Rightarrow> 'v handled" where
  "apply_failed I s idt parent ex K =
     (let exc_content = wrap_exception K ''apply'' ex;
          K1 = send Iopub ''pyerr'' exc_content parent [prefix K @ ''.pyerr''] [] Map.empty K;
          sub = [''dependencies_met'' \<mapsto> JBool (exc_content ''ename'' \<noteq> Some (JStr ''UnmetDependency'')),
                 ''engine'' \<mapsto> JStr (ident K), ''started'' \<mapsto> JStr (now I),
                 ''status'' \<mapsto> JStr ''error'']
      in (None, send s ''apply_reply'' exc_content parent idt [] sub K1))"

text \<open>
  The body of the \<open>try\<close>: the names are bound in \<open>user_ns\<close> (\<open>working\<close> is that dict
  itself), the statement \<open>result = f(*args, **kwargs)\<close> is executed on the names (the
  result name is assigned when the call returns), and the \<open>finally\<close> block pops the
  names.  An exception of the \<open>finally\<close> block replaces the one of the call.  The
  flushes of the stream and of stdout and stderr, and the parent set on the display
  hook, leave the kernel's state alone and are left out.
\<close>

definition apply_request ::
  "'v interp \<Rightarrow> stream \<Rightarrow> string list \<Rightarrow> message \<Rightarrow> 'v kernel \<Rightarrow> 'v handled" where
  "apply_request I s idt parent K =
     (case unpack_apply_message I (buffers parent) (user_ns K) of
        Inl ex \<Rightarrow> apply_failed I s idt parent ex K
      | Inr (f, args, kwargs) \<Rightarrow>
          (let r = call I f args kwargs (bind_names I (msg_id parent) f args kwargs (user_ns K));
               w = (case fst r of
                      Inl ex \<Rightarrow> snd r
                    | Inr v \<Rightarrow> (snd r)(name_prefix (msg_id parent) @ ''result'' \<mapsto> v));
               p = pop_keys (apply_names (msg_id parent)) w;
               K1 = K\<lparr>user_ns := snd p\<rparr>
           in case fst p of
                Some kex \<Rightarrow> apply_failed I s idt parent kex K1
              | None \<Rightarrow>
                  (case fst r of
                     Inl ex \<Rightarrow> apply_failed I s idt parent ex K1
                   | Inr v \<Rightarrow>
                       (case serialize_object I v of
                          Inl ex \<Rightarrow> apply_failed I s idt parent ex K1
                        | Inr (packed_result, buf) \<Rightarrow>
                            (None, send s ''apply_reply'' [''status'' \<mapsto> JStr ''ok''] parent idt
                                     (packed_result # buf)
                                     [''dependencies_met'' \<mapsto> JBool True,
                                      ''engine'' \<mapsto> JStr (ident K),
                                      ''started'' \<mapsto> JStr (now I),
                                      ''status'' \<mapsto> JStr ''ok''] K1)))))"

text \<open>
  \<open>_initial_exec_lines\<close> runs every line of \<open>exec_lines\<close> through \<open>execute_request\<close> on
  a \<open>_Passer\<close>; \<open>clear_request\<close> empties the namespace, replies and runs the lines
  again.
\<close>

fun initial_exec_lines :: "'v interp \<Rightarrow> string list \<Rightarrow> 'v kernel \<Rightarrow> 'v kernel" where
  "initial_exec_lines I [] K = K"
| "initial_exec_lines I (line # lines) K =
     initial_exec_lines I lines
       (snd (execute_request I Passer []
               \<lparr>msg_id = [], msg_type = ''execute_request'',
                content = [''code'' \<mapsto> JStr line], buffers = []\<rparr> K))"

definition clear_request ::
  "'v interp \<Rightarrow> stream \<Rightarrow> string list \<Rightarrow> message \<Rightarrow> 'v kernel \<Rightarrow> 'v handled" where
  "clear_request I s idt parent K =
     (let K1 = send s ''clear_reply'' [''status'' \<mapsto> JStr ''ok''] parent idt [] Map.empty
                 (K\<lparr>user_ns := Map.empty\<rparr>)
      in (None, initial_exec_lines I (exec_lines K1) K1))"

subsection \<open>Dispatch\<close>

text \<open>
  The handler tables built in \<open>__init__\<close>: the shell table has the four request types
  of the queue, the control table has these and \<open>shutdown_request\<close>, \<open>abort_request\<close>.
\<close>

datatype handler = Execute | Complete | Apply | Clear | Shutdown | Abort

definition shell_handlers :: "string \<rightharpoonup> handler" where
  "shell_handlers =
     [''execute_request'' \<mapsto> Execute, ''complete_request'' \<mapsto> Complete,
      ''apply_request'' \<mapsto> Apply, ''clear_request'' \<mapsto> Clear]"

definition control_handlers :: "string \<rightharpoonup> handler" where
  "control_handlers =
     shell_handlers(''shutdown_request'' \<mapsto> Shutdown, ''abort_request'' \<mapsto> Abort)"

fun invoke ::
  "'v interp \<Rightarrow> handler \<Rightarrow> stream \<Rightarrow> string list \<Rightarrow> message \<Rightarrow> 'v kernel \<Rightarrow> 'v handled" where
  "invoke I Execute s idt m K = execute_request I s idt m K"
| "invoke I Complete s idt m K = complete_request I s idt m K"
| "invoke I Apply s idt m K = apply_request I s idt m K"
| "invoke I Clear s idt m K = clear_request I s idt m K"
| "invoke I Shutdown s idt m K = shutdown_request s idt m K"
| "invoke I Abort s idt m K = abort_request s idt m K"

text \<open>
  The frames of a message are its identities and what \<open>unpack_message\<close> makes of the
  rest; \<open>None\<close> when unpacking raises.
\<close>

definition dispatch_control ::
  "'v interp \<Rightarrow> string list \<times> message option \<Rightarrow> 'v kernel \<Rightarrow> 'v handled" where
  "dispatch_control I frames K =
     (case snd frames of
        None \<Rightarrow> (None, K\<lparr>logged := logged K @ [''Invalid Message'']\<rparr>)
      | Some msg \<Rightarrow>
          (case control_handlers (msg_type msg) of
             None \<Rightarrow> (None, K\<lparr>logged := logged K @ [''UNKNOWN CONTROL MESSAGE TYPE'']\<rparr>)
           | Some h \<Rightarrow> invoke I h Control (fst frames) msg K))"

text \<open>
  \<open>dispatch_queue(stream, msg)\<close> for the shell stream number \<open>i\<close>.  The control stream is
  flushed first; an exception of a control handler run by the flush ends the call.
\<close>

definition dispatch_queue ::
  "'v interp \<Rightarrow> nat \<Rightarrow> string list \<times> message option \<Rightarrow> 'v kernel \<Rightarrow> 'v handled" where
  "dispatch_queue I i frames K =
     (case flush_control I K of
        (Some ex, K1) \<Rightarrow> (Some ex, K1)
      | (None, K1) \<Rightarrow>
          (case snd frames of
             None \<Rightarrow> (None, K1\<lparr>logged := logged K1 @ [''Invalid Message'']\<rparr>)
           | Some msg \<Rightarrow>
               if msg_id msg \<in> aborted K1 then
                 (None, send (Shell i) (reply_type (msg_type msg))
                          [''status'' \<mapsto> JStr ''aborted''] msg (fst frames) [] Map.empty
                          (K1\<lparr>aborted := aborted K1 - {msg_id msg}\<rparr>))
               else
                 (case shell_handlers (msg_type msg) of
                    None \<Rightarrow> (None, K1\<lparr>logged := logged K1 @ [''UNKNOWN MESSAGE TYPE'']\<rparr>)
                  | Some h \<Rightarrow> invoke I h (Shell i) (fst frames) msg K1)))"

subsection \<open>A kernel and an interpreter to run examples on\<close>

text \<open>
  An interpreter over strings as values: code \<open>x=v\<close> binds \<open>x\<close> to \<open>v\<close>, any other code
  raises; buffers do not unpack; a call returns its function.  No control frames wait.
\<close>

definition demo_exec :: "jval \<Rightarrow> (string \<rightharpoonup> string) \<Rightarrow> exc option \<times> (string \<rightharpoonup> string)" where
  "demo_exec code ns =
     (case code of
        JStr src \<Rightarrow>
          (if CHR ''='' \<in> set src
           then (None, ns(takeWhile (\<lambda>c. c \<noteq> CHR ''='') src \<mapsto> tl (dropWhile (\<lambda>c. c \<noteq> CHR ''='') src)))
           else (Some (Exc ''SyntaxError'' src), ns))
      | _ \<Rightarrow> (Some (Exc ''TypeError'' ''code''), ns))"

definition demo_interp :: "string interp" where
  "demo_interp =
     \<lparr>now = ''2011-04-01T12:00:00.000000'', py_None = ''None'', exec_code = demo_exec,
      unpack_apply_message = (\<lambda>bufs ns. Inl (Exc ''ValueError'' ''bad buffers'')),
      call = (\<lambda>f args kwargs ns. (Inr f, ns)),
      serialize_object = (\<lambda>v. Inr (v, [])),
      complete = (\<lambda>m ns. []),
      flush_control = (\<lambda>K. (None, K))\<rparr>"

definition demo_kernel :: "string kernel" where
  "demo_kernel =
     \<lparr>ident = ''engine-uuid'', prefix = ''engine.0'', user_ns = Map.empty, exec_lines = [],
      aborted = {}, shell_streams = [Some []], outbox = [], logged = [],
      exit_scheduled = False\<rparr>"

definition request :: "string \<Rightarrow> string \<Rightarrow> (string \<rightharpoonup> jval) \<Rightarrow> message" where
  "request mid t c = \<lparr>msg_id = mid, msg_type = t, content = c, buffers = []\<rparr>"

text \<open>
  The same interpreter with a control frame waiting, an \<open>abort_request\<close> for the message
  \<open>A\<close>; and interpreters whose buffers unpack, one with a function that returns, one
  with a function that unbinds the name it is bound to.
\<close>

definition abort_A_interp :: "string interp" where
  "abort_A_interp =
     demo_interp\<lparr>flush_control :=
       dispatch_control demo_interp
         ([''controller''], Some (request ''c1'' ''abort_request'' [''msg_ids'' \<mapsto> JList [''A'']]))\<rparr>"

definition apply_interp :: "string interp" where
  "apply_interp =
     demo_interp\<lparr>unpack_apply_message := (\<lambda>bufs ns. Inr (''f'', ''args'', ''kwargs''))\<rparr>"

definition unbinding_interp :: "string interp" where
  "unbinding_interp =
     apply_interp\<lparr>call := (\<lambda>f args kwargs ns. (Inr ''r'', ns(''_abc_f'' := None)))\<rparr>"

section \<open>Properties of the launchers\<close>
























lemmas launcher_eval =
  run_def start_def stop_def signal_def interrupt_then_kill_def local_start_def
  local_signal_def poll_def notify_start_def notify_stop_def on_stop_def
  new_launcher_def env_ok_def







lemma signal_not_running:
  "local_kind (kind L) \<Longrightarrow> state L \<noteq> Running \<Longrightarrow> signal sig e L = (None, L)"
  by (cases "kind L") (simp_all add: signal_def local_kind_def local_signal_def ssh_signal_def)

lemma interrupt_then_kill_not_running:
  "local_kind (kind L) \<Longrightarrow> state L \<noteq> Running \<Longrightarrow>
   interrupt_then_kill e L = (None, L\<lparr>effects := effects L @ [KillScheduled]\<rparr>)"
  by (cases "kind L") (simp_all add: interrupt_then_kill_def signal_not_running local_kind_def)

lemma stop_not_running:
  "local_kind (kind L) \<Longrightarrow> state L \<noteq> Running \<Longrightarrow>
   stop e L = (None, L\<lparr>effects := effects L @ [KillScheduled]\<rparr>)"
  by (cases "kind L") (simp_all add: stop_def interrupt_then_kill_not_running local_kind_def)








lemmas launcher_eval2 =
  launcher_eval winhpc_start_def winhpc_stop_def batch_start_def batch_stop_def
  parse_job_id_def search_digits_def digit_char_def local_kind_def ssh_start_def ssh_signal_def












text \<open>
  Claim C6, amended.  For the launchers derived from \<open>LocalProcessLauncher\<close> (local, MPI,
  SSH) outside state \<open>Running\<close>: \<open>signal\<close> raises nothing and changes nothing; \<open>stop\<close> and
  \<open>interrupt_then_kill\<close> raise nothing, send no signal and leave the state, the start
  and stop data and the stop callbacks as they are: they only create and start the
  delayed callback (\<open>self.killer\<close>) that will call \<open>signal(SIGKILL)\<close>, and that call
  changes nothing either.
\<close>

theorem outside_running_signal_and_stop:
  assumes "local_kind (kind L)" and "state L \<noteq> Running"
  shows "signal sig e L = (None, L)
       \<and> stop e L = (None, L\<lparr>effects := effects L @ [KillScheduled]\<rparr>)
       \<and> interrupt_then_kill e L = (None, L\<lparr>effects := effects L @ [KillScheduled]\<rparr>)
       \<and> signal SIGKILL e' (snd (stop e L)) = (None, snd (stop e L))"
proof -
  have "local_kind (kind (L\<lparr>effects := effects L @ [KillScheduled]\<rparr>))"
    "state (L\<lparr>effects := effects L @ [KillScheduled]\<rparr>) \<noteq> Running"
    using assms by simp_all
  from signal_not_running [OF this] signal_not_running [OF assms]
    stop_not_running [OF assms] interrupt_then_kill_not_running [OF assms]
  show ?thesis by simp
qed

text \<open>
  A local launcher that was never started.
\<close>

theorem outside_running_signal_and_stop_witness:
  "local_kind (kind (new_launcher Local :: nat launcher))
   \<and> state (new_launcher Local :: nat launcher) \<noteq> Running
   \<and> signal SIGINT env_ok (new_launcher Local :: nat launcher) = (None, new_launcher Local)
   \<and> fst (stop env_ok (new_launcher Local :: nat launcher)) = None
   \<and> state (snd (stop env_ok (new_launcher Local :: nat launcher))) = Before
   \<and> effects (snd (stop env_ok (new_launcher Local :: nat launcher))) = [KillScheduled]"
  using outside_running_signal_and_stop [of "new_launcher Local :: nat launcher" SIGINT env_ok env_ok]
  by (simp add: launcher_eval2)

text \<open>
  Claim C6 as stated fails: on a batch launcher that was never started, \<open>signal\<close> raises
  \<open>NotImplementedError\<close> and \<open>stop\<close> raises \<open>AttributeError\<close> (\<open>self.job_id\<close> is not set).
\<close>

theorem batch_signal_counterexample:
  "state (new_launcher Batch :: nat launcher) \<noteq> Running
   \<and> fst (signal SIGINT env_ok (new_launcher Batch :: nat launcher)) = Some NotImplementedError
   \<and> fst (stop env_ok (new_launcher Batch :: nat launcher)) = Some AttributeError"
  by (simp add: launcher_eval2)

text \<open>
  A \<open>WindowsHPCLauncher\<close> in state \<open>After\<close> that is stopped again: the cancel command
  runs again and \<open>notify_stop\<close> replaces the stop data.
\<close>

lemma winhpc_stop_twice:
  "state (run [(env_ok, Start 4 ''/p'' None None), (env_ok, Stop)]
       (new_launcher WinHPC :: nat launcher)) = After
   \<and> stop_data (run [(env_ok, Start 4 ''/p'' None None), (env_ok, Stop)]
       (new_launcher WinHPC :: nat launcher)) = Some (JobData ''17'' ''Job 17 submitted'')
   \<and> stop_data (snd (stop (env_ok\<lparr>cmd_output := None\<rparr>)
       (run [(env_ok, Start 4 ''/p'' None None), (env_ok, Stop)]
          (new_launcher WinHPC :: nat launcher))))
      = Some (JobData ''17'' (''The job already appears to be stoppped: '' @ py_repr ''17''))"
  by (simp add: launcher_eval2)

text \<open>
  Claim C8, the code at the failing input.  On an SSH launcher with hostname \<open>h1\<close> and
  user \<open>alice\<close>, assigning the empty string to \<open>user\<close> leaves \<open>location\<close> equal to
  \<open>@h1\<close>, not to the hostname \<open>h1\<close>: \<open>_user_changed\<close> lacks the test for an empty user
  that \<open>_hostname_changed\<close> makes.
\<close>

theorem user_changed_empty_user:
  "location (set_user [] (set_user ''alice'' (set_hostname ''h1'' (new_launcher SSH :: nat launcher))))
     = ''@h1''
   \<and> user (set_user [] (set_user ''alice'' (set_hostname ''h1'' (new_launcher SSH :: nat launcher)))) = []
   \<and> hostname (set_user [] (set_user ''alice'' (set_hostname ''h1'' (new_launcher SSH :: nat launcher))))
     = ''h1''"
  by (simp add: set_user_def set_hostname_def user_changed_def hostname_changed_def new_launcher_def)

lemma location_follows_hostname:
  "v \<noteq> hostname L \<Longrightarrow>
   location (set_hostname v L) = (if user L = [] then v else user L @ ''@'' @ v)"
  by (simp add: set_hostname_def hostname_changed_def)

lemma location_follows_user:
  "v \<noteq> user L \<Longrightarrow> location (set_user v L) = v @ ''@'' @ hostname L"
  by (simp add: set_user_def user_changed_def)

section \<open>Properties of the batch script\<close>






















section \<open>Properties of the kernel\<close>

lemmas kernel_eval =
  execute_request_def apply_request_def apply_failed_def abort_request_def abort_queues_def
  dispatch_queue_def dispatch_control_def send_def wrap_exception_def reply_type_def
  aborted_reply_def falsy_def apply_names_def shell_handlers_def control_handlers_def
  demo_interp_def demo_kernel_def demo_exec_def request_def

text \<open>
  Claim C10.  When the content of an \<open>execute_request\<close> has no \<open>code\<close> key, the kernel
  logs an error and returns: nothing is sent (no \<open>pyin\<close> on the iopub stream, no
  \<open>execute_reply\<close>) and \<open>user_ns\<close> is as before; the log entry is the only change.
\<close>

theorem execute_request_without_code:
  assumes "content parent ''code'' = None"
  shows "execute_request I s idt parent K = (None, K\<lparr>logged := logged K @ [''Got bad msg'']\<rparr>)"
  using assms by (simp add: execute_request_def)

text \<open>
  An \<open>execute_request\<close> with an empty content.
\<close>

theorem execute_request_without_code_witness:
  "content (request ''m1'' ''execute_request'' Map.empty) ''code'' = None
   \<and> outbox (snd (execute_request demo_interp (Shell 0) [''client'']
                    (request ''m1'' ''execute_request'' Map.empty) demo_kernel)) = []
   \<and> dom (user_ns (snd (execute_request demo_interp (Shell 0) [''client'']
                    (request ''m1'' ''execute_request'' Map.empty) demo_kernel))) = {}
   \<and> logged (snd (execute_request demo_interp (Shell 0) [''client'']
                    (request ''m1'' ''execute_request'' Map.empty) demo_kernel)) = [''Got bad msg'']"
  using execute_request_without_code
    [of "request ''m1'' ''execute_request'' Map.empty" demo_interp "Shell 0" "[''client'']" demo_kernel]
  by (simp add: request_def demo_kernel_def)

text \<open>
  Claim C3.  When the control stream has been flushed and the \<open>msg_id\<close> of a shell
  message is in the abort set, \<open>dispatch_queue\<close> sends one reply on the stream of the
  request, of type "the \<open>msg_type\<close> up to its first underscore" followed by \<open>_reply\<close>,
  with content \<open>{status: aborted}\<close>, the request as parent and the identities of the
  request; it removes the \<open>msg_id\<close> from the abort set; and nothing else changes: no
  handler ran, since every handler sends or logs, or changes \<open>user_ns\<close>.
\<close>

theorem aborted_message_is_not_dispatched:
  assumes "flush_control I K = (None, K1)" and "msg_id msg \<in> aborted K1"
  shows "dispatch_queue I i (idents, Some msg) K =
           (None, K1\<lparr>aborted := aborted K1 - {msg_id msg},
                     outbox := outbox K1 @
                       [\<lparr>via = Shell i,
                         sent_type = takeWhile (\<lambda>c. c \<noteq> CHR ''_'') (msg_type msg) @ ''_reply'',
                         sent_content = [''status'' \<mapsto> JStr ''aborted''],
                         sent_parent = msg, sent_ident = idents, sent_buffers = [],
                         subheader = Map.empty\<rparr>]\<rparr>)"
  using assms by (simp add: dispatch_queue_def send_def reply_type_def)

lemmas kernel_eval2 = kernel_eval name_prefix_def bind_names_def abort_A_interp_def
  apply_interp_def unbinding_interp_def

text \<open>
  An \<open>abort_request\<close> for \<open>A\<close> waits on the control stream when the
  \<open>execute_request\<close> \<open>A\<close> with code \<open>x=5\<close> is dispatched: the request is answered with
  \<open>execute_reply\<close>, status \<open>aborted\<close>, and \<open>x\<close> is not bound.
\<close>

theorem aborted_message_is_not_dispatched_witness:
  "fst (flush_control abort_A_interp demo_kernel) = None
   \<and> msg_id (request ''A'' ''execute_request'' [''code'' \<mapsto> JStr ''x=5''])
       \<in> aborted (snd (flush_control abort_A_interp demo_kernel))
   \<and> map (\<lambda>m. (via m, sent_type m, sent_content m ''status'', sent_ident m))
        (outbox (snd (dispatch_queue abort_A_interp 0
           ([''client''], Some (request ''A'' ''execute_request'' [''code'' \<mapsto> JStr ''x=5'']))
           demo_kernel)))
       = [(Control, ''abort_reply'', Some (JStr ''ok''), [''controller'']),
          (Shell 0, ''execute_reply'', Some (JStr ''aborted''), [''client''])]
   \<and> aborted (snd (dispatch_queue abort_A_interp 0
           ([''client''], Some (request ''A'' ''execute_request'' [''code'' \<mapsto> JStr ''x=5'']))
           demo_kernel)) = {}
   \<and> dom (user_ns (snd (dispatch_queue abort_A_interp 0
           ([''client''], Some (request ''A'' ''execute_request'' [''code'' \<mapsto> JStr ''x=5'']))
           demo_kernel))) = {}"
proof -
  have f: "flush_control abort_A_interp demo_kernel
        = (None, snd (flush_control abort_A_interp demo_kernel))"
    by (simp add: kernel_eval2)
  have a: "msg_id (request ''A'' ''execute_request'' [''code'' \<mapsto> JStr ''x=5''])
       \<in> aborted (snd (flush_control abort_A_interp demo_kernel))"
    by (simp add: kernel_eval2)
  from aborted_message_is_not_dispatched [OF f a, of 0 "[''client'']"]
  show ?thesis
    by (simp add: kernel_eval2)
qed

lemma abort_request_missing_ids:
  "content parent ''msg_ids'' = None \<Longrightarrow>
   abort_request s idt parent K = (Some (Exc ''TypeError'' ''object is not iterable''), abort_queues K)"
  by (simp add: abort_request_def falsy_def)

lemma abort_request_empty_ids:
  "content parent ''msg_ids'' = Some (JList []) \<Longrightarrow>
   abort_request s idt parent K =
     (None, send s ''abort_reply'' [''status'' \<mapsto> JStr ''ok''] parent idt [] Map.empty (abort_queues K))"
  by (simp add: abort_request_def falsy_def)

lemma abort_request_listed_ids:
  "content parent ''msg_ids'' = Some (JList mids) \<Longrightarrow> mids \<noteq> [] \<Longrightarrow>
   abort_request s idt parent K =
     (None, send s ''abort_reply'' [''status'' \<mapsto> JStr ''ok''] parent idt [] Map.empty
              (K\<lparr>aborted := aborted K \<union> set mids\<rparr>))"
  by (simp add: abort_request_def falsy_def)

text \<open>
  Claim C2, the code at the failing input.  An \<open>abort_request\<close> whose content has no
  \<open>msg_ids\<close> key, with one request waiting on the shell stream: \<open>abort_queues\<close> runs
  (the waiting request is answered with status \<open>aborted\<close>), then the loop over
  \<open>msg_ids\<close>, which is \<open>None\<close>, raises \<open>TypeError\<close>, and no \<open>abort_reply\<close> is sent.
  For an empty and for a non-empty list of ids the handler does what the claim says
  (\<open>abort_request_empty_ids\<close>, \<open>abort_request_listed_ids\<close>).
\<close>

theorem abort_request_without_msg_ids:
  "fst (abort_request Control [''controller''] (request ''c1'' ''abort_request'' Map.empty)
          (demo_kernel\<lparr>shell_streams :=
             [Some [Got [''client''] (request ''A'' ''execute_request'' [''code'' \<mapsto> JStr ''x=5''])]]\<rparr>))
     = Some (Exc ''TypeError'' ''object is not iterable'')
   \<and> map (\<lambda>m. (via m, sent_type m, sent_content m ''status''))
        (outbox (snd (abort_request Control [''controller'']
          (request ''c1'' ''abort_request'' Map.empty)
          (demo_kernel\<lparr>shell_streams :=
             [Some [Got [''client''] (request ''A'' ''execute_request'' [''code'' \<mapsto> JStr ''x=5''])]]\<rparr>))))
     = [(Shell 0, ''execute_reply'', Some (JStr ''aborted''))]
   \<and> shell_streams (snd (abort_request Control [''controller'']
          (request ''c1'' ''abort_request'' Map.empty)
          (demo_kernel\<lparr>shell_streams :=
             [Some [Got [''client''] (request ''A'' ''execute_request'' [''code'' \<mapsto> JStr ''x=5''])]]\<rparr>)))
     = [Some []]"
  by (simp add: kernel_eval2)

lemma user_ns_send: "user_ns (send s t c p i b sub K) = user_ns K"
  by (simp add: send_def)

lemma user_ns_apply_failed: "user_ns (snd (apply_failed I s idt parent ex K)) = user_ns K"
  by (simp add: apply_failed_def Let_def user_ns_send)

lemma pop_keys_all:
  "distinct ks \<Longrightarrow> set ks \<subseteq> dom w \<Longrightarrow>
   pop_keys ks w = (None, \<lambda>k. if k \<in> set ks then None else w k)"
proof (induction ks arbitrary: w)
  case Nil
  then show ?case by simp
next
  case (Cons k ks)
  from Cons.prems obtain v where v: "w k = Some v" by auto
  have d: "distinct ks" using Cons.prems by simp
  have s: "set ks \<subseteq> dom (w(k := None))" using Cons.prems by auto
  have IH: "pop_keys ks (w(k := None))
              = (None, \<lambda>x. if x \<in> set ks then None else (w(k := None)) x)"
    by (rule Cons.IH [OF d s])
  have e: "(\<lambda>x. if x \<in> set ks then None else (w(k := None)) x)
         = (\<lambda>x. if x \<in> set (k # ks) then None else w x)"
    by (auto simp: fun_eq_iff)
  have "pop_keys (k # ks) w = pop_keys ks (w(k := None))" using v by simp
  also have "\<dots> = (None, \<lambda>x. if x \<in> set (k # ks) then None else w x)"
    unfolding IH e ..
  finally show ?case .
qed

lemma distinct_apply_names: "distinct (apply_names mid)"
  by (simp add: apply_names_def)

lemma user_ns_apply_request_unpacked:
  assumes u: "unpack_apply_message I (buffers parent) (user_ns K) = Inr (f, args, kwargs)"
    and b: "set (apply_names (msg_id parent))
              \<subseteq> dom (snd (call I f args kwargs (bind_names I (msg_id parent) f args kwargs (user_ns K))))"
  shows "user_ns (snd (apply_request I s idt parent K)) =
           (\<lambda>k. if k \<in> set (apply_names (msg_id parent)) then None
                else snd (call I f args kwargs
                            (bind_names I (msg_id parent) f args kwargs (user_ns K))) k)"
proof -
  let ?r = "call I f args kwargs (bind_names I (msg_id parent) f args kwargs (user_ns K))"
  let ?w = "case fst ?r of Inl ex \<Rightarrow> snd ?r
            | Inr v \<Rightarrow> (snd ?r)(name_prefix (msg_id parent) @ ''result'' \<mapsto> v)"
  have sub: "set (apply_names (msg_id parent)) \<subseteq> dom ?w"
    using b by (auto split: sum.splits)
  have p: "pop_keys (apply_names (msg_id parent)) ?w
             = (None, \<lambda>k. if k \<in> set (apply_names (msg_id parent)) then None else ?w k)"
    by (rule pop_keys_all [OF distinct_apply_names sub])
  have w: "(\<lambda>k. if k \<in> set (apply_names (msg_id parent)) then None else ?w k)
         = (\<lambda>k. if k \<in> set (apply_names (msg_id parent)) then None else snd ?r k)"
    by (auto simp: fun_eq_iff apply_names_def split: sum.splits)
  have "user_ns (snd (apply_request I s idt parent K))
      = (\<lambda>k. if k \<in> set (apply_names (msg_id parent)) then None else ?w k)"
  proof (cases "fst ?r")
    case (Inl ex)
    then have w': "?w = snd ?r" by simp
    from p have p': "pop_keys (apply_names (msg_id parent)) (snd ?r)
        = (None, \<lambda>k. if k \<in> set (apply_names (msg_id parent)) then None else snd ?r k)"
      unfolding w' .
    show ?thesis
      unfolding apply_request_def u w' using Inl p'
      by (simp add: Let_def user_ns_apply_failed)
  next
    case (Inr v)
    then have w': "?w = (snd ?r)(name_prefix (msg_id parent) @ ''result'' \<mapsto> v)" by simp
    from p have p': "pop_keys (apply_names (msg_id parent))
          ((snd ?r)(name_prefix (msg_id parent) @ ''result'' \<mapsto> v))
        = (None, \<lambda>k. if k \<in> set (apply_names (msg_id parent)) then None
                      else ((snd ?r)(name_prefix (msg_id parent) @ ''result'' \<mapsto> v)) k)"
      unfolding w' .
    show ?thesis
    proof (cases "serialize_object I v")
      case (Inl ex)
      show ?thesis
        unfolding apply_request_def u w' using Inr Inl p'
        by (simp add: Let_def user_ns_apply_failed del: fun_upd_apply)
    next
      case ser: (Inr pr)
      obtain packed buf where pr: "pr = (packed, buf)" by (cases pr)
      show ?thesis
        unfolding apply_request_def u w' using Inr ser pr p'
        by (simp add: Let_def user_ns_send del: fun_upd_apply)
    qed
  qed
  with w show ?thesis by simp
qed

text \<open>
  Claim C7, amended.  When the buffers of an \<open>apply_request\<close> do not unpack, \<open>user_ns\<close>
  is left as it was.  When they unpack and the call of the function leaves the four
  names bound, then after the request, whether the call returned or raised and whether
  the result could be serialized or not, none of the four names is bound in \<open>user_ns\<close>
  and every other name is bound as the call left it.
\<close>

theorem apply_request_unbinds_names:
  "(unpack_apply_message I (buffers parent) (user_ns K) = Inl ex \<longrightarrow>
      user_ns (snd (apply_request I s idt parent K)) = user_ns K)
   \<and> (unpack_apply_message I (buffers parent) (user_ns K) = Inr (f, args, kwargs) \<and>
      set (apply_names (msg_id parent))
        \<subseteq> dom (snd (call I f args kwargs (bind_names I (msg_id parent) f args kwargs (user_ns K))))
      \<longrightarrow>
      set (apply_names (msg_id parent)) \<inter> dom (user_ns (snd (apply_request I s idt parent K))) = {}
      \<and> (\<forall>k. k \<notin> set (apply_names (msg_id parent)) \<longrightarrow>
             user_ns (snd (apply_request I s idt parent K)) k =
             snd (call I f args kwargs (bind_names I (msg_id parent) f args kwargs (user_ns K))) k))"
proof (intro conjI impI)
  assume "unpack_apply_message I (buffers parent) (user_ns K) = Inl ex"
  then show "user_ns (snd (apply_request I s idt parent K)) = user_ns K"
    by (simp add: apply_request_def user_ns_apply_failed)
next
  assume a: "unpack_apply_message I (buffers parent) (user_ns K) = Inr (f, args, kwargs) \<and>
      set (apply_names (msg_id parent))
        \<subseteq> dom (snd (call I f args kwargs (bind_names I (msg_id parent) f args kwargs (user_ns K))))"
  have eq: "user_ns (snd (apply_request I s idt parent K)) =
           (\<lambda>k. if k \<in> set (apply_names (msg_id parent)) then None
                else snd (call I f args kwargs
                            (bind_names I (msg_id parent) f args kwargs (user_ns K))) k)"
    by (rule user_ns_apply_request_unpacked [OF conjunct1 [OF a] conjunct2 [OF a]])
  show "set (apply_names (msg_id parent)) \<inter> dom (user_ns (snd (apply_request I s idt parent K))) = {}"
    unfolding eq by (auto simp: dom_def)
  show "\<forall>k. k \<notin> set (apply_names (msg_id parent)) \<longrightarrow>
             user_ns (snd (apply_request I s idt parent K)) k =
             snd (call I f args kwargs (bind_names I (msg_id parent) f args kwargs (user_ns K))) k"
    unfolding eq by simp
qed

text \<open>
  A request whose function returns, in a namespace that binds \<open>x\<close>.
\<close>

theorem apply_request_unbinds_names_witness:
  "unpack_apply_message apply_interp (buffers (request ''a-bc'' ''apply_request'' Map.empty))
      (user_ns (demo_kernel\<lparr>user_ns := [''x'' \<mapsto> ''5'']\<rparr>)) = Inr (''f'', ''args'', ''kwargs'')
   \<and> set (apply_names (msg_id (request ''a-bc'' ''apply_request'' Map.empty)))
       \<subseteq> dom (snd (call apply_interp ''f'' ''args'' ''kwargs''
            (bind_names apply_interp (msg_id (request ''a-bc'' ''apply_request'' Map.empty))
               ''f'' ''args'' ''kwargs'' (user_ns (demo_kernel\<lparr>user_ns := [''x'' \<mapsto> ''5'']\<rparr>)))))
   \<and> apply_names ''a-bc'' = [''_abc_f'', ''_abc_args'', ''_abc_kwargs'', ''_abc_result'']
   \<and> set (apply_names ''a-bc'')
       \<inter> dom (user_ns (snd (apply_request apply_interp (Shell 0) [''client'']
            (request ''a-bc'' ''apply_request'' Map.empty)
            (demo_kernel\<lparr>user_ns := [''x'' \<mapsto> ''5'']\<rparr>)))) = {}
   \<and> user_ns (snd (apply_request apply_interp (Shell 0) [''client'']
            (request ''a-bc'' ''apply_request'' Map.empty)
            (demo_kernel\<lparr>user_ns := [''x'' \<mapsto> ''5'']\<rparr>))) ''x'' = Some ''5''"
proof -
  have u: "unpack_apply_message apply_interp (buffers (request ''a-bc'' ''apply_request'' Map.empty))
      (user_ns (demo_kernel\<lparr>user_ns := [''x'' \<mapsto> ''5'']\<rparr>)) = Inr (''f'', ''args'', ''kwargs'')"
    by (simp add: kernel_eval2)
  have b: "set (apply_names (msg_id (request ''a-bc'' ''apply_request'' Map.empty)))
       \<subseteq> dom (snd (call apply_interp ''f'' ''args'' ''kwargs''
            (bind_names apply_interp (msg_id (request ''a-bc'' ''apply_request'' Map.empty))
               ''f'' ''args'' ''kwargs'' (user_ns (demo_kernel\<lparr>user_ns := [''x'' \<mapsto> ''5'']\<rparr>)))))"
    by (simp add: kernel_eval2)
  have n: "apply_names ''a-bc'' = [''_abc_f'', ''_abc_args'', ''_abc_kwargs'', ''_abc_result'']"
    by (simp add: kernel_eval2)
  have m: "msg_id (request ''a-bc'' ''apply_request'' Map.empty) = ''a-bc''"
    by (simp add: request_def)
  have x: "''x'' \<notin> set (apply_names ''a-bc'')" by (simp add: n)
  have c: "snd (call apply_interp ''f'' ''args'' ''kwargs''
            (bind_names apply_interp ''a-bc'' ''f'' ''args'' ''kwargs'' [''x'' \<mapsto> ''5''])) ''x'' = Some ''5''"
    by (simp add: kernel_eval2)
  from apply_request_unbinds_names
    [of apply_interp "request ''a-bc'' ''apply_request'' Map.empty"
        "demo_kernel\<lparr>user_ns := [''x'' \<mapsto> ''5'']\<rparr>" undefined "Shell 0" "[''client'']"
        "''f''" "''args''" "''kwargs''"]
    u b
  have "set (apply_names ''a-bc'')
       \<inter> dom (user_ns (snd (apply_request apply_interp (Shell 0) [''client'']
            (request ''a-bc'' ''apply_request'' Map.empty)
            (demo_kernel\<lparr>user_ns := [''x'' \<mapsto> ''5'']\<rparr>)))) = {}"
    and "user_ns (snd (apply_request apply_interp (Shell 0) [''client'']
            (request ''a-bc'' ''apply_request'' Map.empty)
            (demo_kernel\<lparr>user_ns := [''x'' \<mapsto> ''5'']\<rparr>))) ''x''
       = snd (call apply_interp ''f'' ''args'' ''kwargs''
            (bind_names apply_interp ''a-bc'' ''f'' ''args'' ''kwargs'' [''x'' \<mapsto> ''5''])) ''x''"
    using x unfolding m by (simp_all add: demo_kernel_def)
  with u b n c show ?thesis by simp
qed

text \<open>
  Claim C7 as stated fails.  A name of the four that is bound before the request is still
  bound after it when the buffers do not unpack; and when the function unbinds the
  name it is bound to, the \<open>finally\<close> block stops at that name with \<open>KeyError\<close> and
  the other three names stay bound.
\<close>

theorem apply_request_leftover_names_counterexample:
  "''_abc_f'' \<in> set (apply_names (msg_id (request ''a-bc'' ''apply_request'' Map.empty)))
   \<and> ''_abc_f'' \<in> dom (user_ns (snd (apply_request demo_interp (Shell 0) [''client'']
            (request ''a-bc'' ''apply_request'' Map.empty)
            (demo_kernel\<lparr>user_ns := [''_abc_f'' \<mapsto> ''mine'']\<rparr>))))
   \<and> dom (user_ns (snd (apply_request unbinding_interp (Shell 0) [''client'']
            (request ''a-bc'' ''apply_request'' Map.empty) demo_kernel)))
       = {''_abc_result'', ''_abc_kwargs'', ''_abc_args''}"
  by (simp add: kernel_eval2 Let_def)

end
